theory Spec2Isabelle
  imports Complex_Main
begin

section \<open>Python values used by the handlers of app.py\<close>

text \<open>
  The handlers of \<^verbatim>\<open>back/app.py\<close> work on what \<^verbatim>\<open>request.get_json()\<close> returns
  (any JSON value, or \<^verbatim>\<open>None\<close>), on two module-level dictionaries and on the wall
  clock. A Python \<^verbatim>\<open>str\<close> is modelled as a \<^typ>\<open>string\<close> holding its UTF-8 bytes;
  Python's \<^verbatim>\<open>int\<close> is \<^typ>\<open>int\<close>. Python's \<^verbatim>\<open>float\<close> is the type variable
  \<open>'f\<close>: the handlers never compute with floats, they only convert to them and test them
  for truth, and these primitives of the interpreter are passed in (record \<open>builtins\<close>
  below).
\<close>

datatype exn = TypeError | AttributeError | KeyError | ValueError | OverflowError

datatype 'f json =
    JNull
  | JBool bool
  | JInt int
  | JFloat 'f
  | JStr string
  | JArr "'f json list"
  | JObj "(string \<times> 'f json) list"

text \<open>
  The primitives of the interpreter that the handlers call and that are not modelled
  further: \<^verbatim>\<open>float(i)\<close> on an int (\<open>None\<close>: OverflowError), \<^verbatim>\<open>float(s)\<close> on a str
  (\<open>None\<close>: ValueError), \<^verbatim>\<open>bool(x)\<close> on a float, and \<^verbatim>\<open>str.lower\<close>.
\<close>

record 'f builtins =
  float_of_int :: "int \<Rightarrow> 'f option"
  float_of_str :: "string \<Rightarrow> 'f option"
  float_nonzero :: "'f \<Rightarrow> bool"
  str_lower :: "string \<Rightarrow> string"

text \<open>Truth value of a JSON value (\<^verbatim>\<open>not x\<close>, \<^verbatim>\<open>if x:\<close>).\<close>

fun truthy :: "'f builtins \<Rightarrow> 'f json \<Rightarrow> bool" where
  "truthy B JNull = False"
| "truthy B (JBool b) = b"
| "truthy B (JInt i) = (i \<noteq> 0)"
| "truthy B (JFloat x) = float_nonzero B x"
| "truthy B (JStr s) = (s \<noteq> [])"
| "truthy B (JArr xs) = (xs \<noteq> [])"
| "truthy B (JObj kvs) = (kvs \<noteq> [])"

text \<open>\<^verbatim>\<open>x in s\<close> on two strings: \<open>x\<close> occurs in \<open>s\<close> as a contiguous run.\<close>

fun starts_with :: "string \<Rightarrow> string \<Rightarrow> bool" where
  "starts_with [] s = True"
| "starts_with (a # x) [] = False"
| "starts_with (a # x) (c # s) = (if a = c then starts_with x s else False)"

fun str_contains :: "string \<Rightarrow> string \<Rightarrow> bool" where
  "str_contains x [] = (x = [])"
| "str_contains x (c # s) = (if starts_with x (c # s) then True else str_contains x s)"

text \<open>
  \<^verbatim>\<open>k in data\<close> for a string \<open>k\<close>: key membership on a dict, element membership on a
  list, substring on a str, TypeError on \<^verbatim>\<open>None\<close>, a bool or a number.
\<close>

fun py_in :: "string \<Rightarrow> 'f json \<Rightarrow> exn + bool" where
  "py_in k (JObj kvs) = Inr (map_of kvs k \<noteq> None)"
| "py_in k (JArr xs) = Inr (List.member xs (JStr k))"
| "py_in k (JStr s) = Inr (str_contains k s)"
| "py_in k JNull = Inl TypeError"
| "py_in k (JBool b) = Inl TypeError"
| "py_in k (JInt i) = Inl TypeError"
| "py_in k (JFloat x) = Inl TypeError"

text \<open>\<^verbatim>\<open>data[k]\<close> for a string \<open>k\<close>: KeyError on a dict without the key, TypeError elsewhere.\<close>

fun py_getitem :: "'f json \<Rightarrow> string \<Rightarrow> exn + 'f json" where
  "py_getitem (JObj kvs) k = (case map_of kvs k of None \<Rightarrow> Inl KeyError | Some v \<Rightarrow> Inr v)"
| "py_getitem (JArr xs) k = Inl TypeError"
| "py_getitem (JStr s) k = Inl TypeError"
| "py_getitem JNull k = Inl TypeError"
| "py_getitem (JBool b) k = Inl TypeError"
| "py_getitem (JInt i) k = Inl TypeError"
| "py_getitem (JFloat x) k = Inl TypeError"

text \<open>\<^verbatim>\<open>data.get(k, d)\<close>: only a dict has the method.\<close>

fun py_get :: "'f json \<Rightarrow> string \<Rightarrow> 'f json \<Rightarrow> exn + 'f json" where
  "py_get (JObj kvs) k d = Inr (case map_of kvs k of None \<Rightarrow> d | Some v \<Rightarrow> v)"
| "py_get (JArr xs) k d = Inl AttributeError"
| "py_get (JStr s) k d = Inl AttributeError"
| "py_get JNull k d = Inl AttributeError"
| "py_get (JBool b) k d = Inl AttributeError"
| "py_get (JInt i) k d = Inl AttributeError"
| "py_get (JFloat x) k d = Inl AttributeError"

text \<open>\<^verbatim>\<open>float(v)\<close>: a bool is an int; \<^verbatim>\<open>None\<close>, lists and dicts give TypeError.\<close>

fun py_float :: "'f builtins \<Rightarrow> 'f json \<Rightarrow> exn + 'f" where
  "py_float B (JFloat x) = Inr x"
| "py_float B (JInt i) =
     (case float_of_int B i of None \<Rightarrow> Inl OverflowError | Some x \<Rightarrow> Inr x)"
| "py_float B (JBool b) =
     (case float_of_int B (if b then 1 else 0) of None \<Rightarrow> Inl OverflowError | Some x \<Rightarrow> Inr x)"
| "py_float B (JStr s) =
     (case float_of_str B s of None \<Rightarrow> Inl ValueError | Some x \<Rightarrow> Inr x)"
| "py_float B JNull = Inl TypeError"
| "py_float B (JArr xs) = Inl TypeError"
| "py_float B (JObj kvs) = Inl TypeError"

text \<open>\<^verbatim>\<open>v.lower()\<close>: only a str has the method.\<close>

fun py_lower :: "'f builtins \<Rightarrow> 'f json \<Rightarrow> exn + string" where
  "py_lower B (JStr s) = Inr (str_lower B s)"
| "py_lower B JNull = Inl AttributeError"
| "py_lower B (JBool b) = Inl AttributeError"
| "py_lower B (JInt i) = Inl AttributeError"
| "py_lower B (JFloat x) = Inl AttributeError"
| "py_lower B (JArr xs) = Inl AttributeError"
| "py_lower B (JObj kvs) = Inl AttributeError"

text \<open>\<^verbatim>\<open>str(n)\<close> of a natural number: its decimal digits, most significant first.\<close>

definition digit_char :: "nat \<Rightarrow> char" where
  "digit_char d = char_of (48 + d)"

fun py_str :: "nat \<Rightarrow> string" where
  "py_str n = (if n < 10 then [digit_char n] else py_str (n div 10) @ [digit_char (n mod 10)])"

declare py_str.simps [simp del]

text \<open>The value a decimal string denotes (\<^verbatim>\<open>int(s)\<close> on digits), to read ids back.\<close>

definition digit_val :: "char \<Rightarrow> nat" where
  "digit_val c = of_char c - 48"

definition decimal_val :: "string \<Rightarrow> nat" where
  "decimal_val s = foldl (\<lambda>acc c. 10 * acc + digit_val c) 0 s"

section \<open>Dictionaries\<close>

text \<open>
  A Python dict keeps its keys in insertion order: an association list with
  \<^verbatim>\<open>d[k] = v\<close> overwriting in place or appending, \<^verbatim>\<open>d.pop(k)\<close> removing the entry.
\<close>

type_synonym ('k, 'v) dict = "('k \<times> 'v) list"

definition dict_get :: "('k, 'v) dict \<Rightarrow> 'k \<Rightarrow> 'v option" where
  "dict_get d k = map_of d k"

definition dict_contains :: "('k, 'v) dict \<Rightarrow> 'k \<Rightarrow> bool" where
  "dict_contains d k = (map_of d k \<noteq> None)"

primrec dict_setitem :: "('k, 'v) dict \<Rightarrow> 'k \<Rightarrow> 'v \<Rightarrow> ('k, 'v) dict" where
  "dict_setitem [] k v = [(k, v)]"
| "dict_setitem (p # d) k v = (if fst p = k then (k, v) # d else p # dict_setitem d k v)"

primrec dict_pop :: "('k, 'v) dict \<Rightarrow> 'k \<Rightarrow> ('k, 'v) dict" where
  "dict_pop [] k = []"
| "dict_pop (p # d) k = (if fst p = k then dict_pop d k else p # dict_pop d k)"

definition dict_values :: "('k, 'v) dict \<Rightarrow> 'v list" where
  "dict_values d = map snd d"

definition dict_len :: "('k, 'v) dict \<Rightarrow> nat" where
  "dict_len d = length d"

section \<open>Stored entities, the store and the responses\<close>

text \<open>
  A stored user is the dict literal of \<^verbatim>\<open>create_user\<close> (keys \<^verbatim>\<open>id\<close>, \<^verbatim>\<open>name\<close>,
  \<^verbatim>\<open>email\<close>, \<^verbatim>\<open>created_at\<close>, \<^verbatim>\<open>updated_at\<close>), a stored item that of
  \<^verbatim>\<open>create_item\<close>; no handler adds or removes a key, so they are records. \<^verbatim>\<open>name\<close>,
  \<^verbatim>\<open>email\<close> and \<^verbatim>\<open>description\<close> are stored as the request gave them, whatever
  their JSON type; ids and time stamps are strings, the price is a float.
\<close>

record 'f user =
  user_id :: string
  user_name :: "'f json"
  user_email :: "'f json"
  user_created_at :: string
  user_updated_at :: string

record 'f item =
  item_id :: string
  item_name :: "'f json"
  item_price :: 'f
  item_description :: "'f json"
  item_created_at :: string

text \<open>The two module-level dictionaries \<^verbatim>\<open>users_db\<close> and \<^verbatim>\<open>items_db\<close>.\<close>

record 'f store =
  users_db :: "(string, 'f user) dict"
  items_db :: "(string, 'f item) dict"

text \<open>\<^verbatim>\<open>jsonify\<close> of a stored entity.\<close>

definition user_json :: "'f user \<Rightarrow> 'f json" where
  "user_json u = JObj
     [(''id'', JStr (user_id u)), (''name'', user_name u), (''email'', user_email u),
      (''created_at'', JStr (user_created_at u)), (''updated_at'', JStr (user_updated_at u))]"

definition item_json :: "'f item \<Rightarrow> 'f json" where
  "item_json it = JObj
     [(''id'', JStr (item_id it)), (''name'', item_name it), (''price'', JFloat (item_price it)),
      (''description'', item_description it), (''created_at'', JStr (item_created_at it))]"

text \<open>
  A handler returns a body and a status, or raises. Every handler is a function of the
  store that returns the store it leaves behind.
\<close>

type_synonym 'f response = "'f json \<times> nat"
type_synonym 'f outcome = "exn + 'f response"

text \<open>
  The message literals of the source, as UTF-8:
  "user does not exist" (U+7528 U+6237 U+4E0D U+5B58 U+5728),
  "missing required field: " (U+7F3A U+5C11 U+5FC5 U+8981 U+5B57 U+6BB5, colon, space),
  "user deleted" (U+7528 U+6237 U+5DF2 U+5220 U+9664),
  "item does not exist" (U+7269 U+54C1 U+4E0D U+5B58 U+5728),
  "item deleted" (U+7269 U+54C1 U+5DF2 U+5220 U+9664),
  "internal server error" (U+670D U+52A1 U+5668 U+5185 U+90E8 U+9519 U+8BEF),
  "retry later" (U+8BF7 U+7A0D U+540E U+91CD U+8BD5).
\<close>

definition msg_user_missing :: string where
  "msg_user_missing = [CHR 0xE7, CHR 0x94, CHR 0xA8, CHR 0xE6, CHR 0x88, CHR 0xB7, CHR 0xE4,
     CHR 0xB8, CHR 0x8D, CHR 0xE5, CHR 0xAD, CHR 0x98, CHR 0xE5, CHR 0x9C, CHR 0xA8]"

definition msg_missing_field :: "string \<Rightarrow> string" where
  "msg_missing_field field = [CHR 0xE7, CHR 0xBC, CHR 0xBA, CHR 0xE5, CHR 0xB0, CHR 0x91,
     CHR 0xE5, CHR 0xBF, CHR 0x85, CHR 0xE8, CHR 0xA6, CHR 0x81, CHR 0xE5, CHR 0xAD, CHR 0x97,
     CHR 0xE6, CHR 0xAE, CHR 0xB5, CHR 0x3A, CHR 0x20] @ field"

definition msg_user_deleted :: string where
  "msg_user_deleted = [CHR 0xE7, CHR 0x94, CHR 0xA8, CHR 0xE6, CHR 0x88, CHR 0xB7, CHR 0xE5,
     CHR 0xB7, CHR 0xB2, CHR 0xE5, CHR 0x88, CHR 0xA0, CHR 0xE9, CHR 0x99, CHR 0xA4]"

definition msg_item_missing :: string where
  "msg_item_missing = [CHR 0xE7, CHR 0x89, CHR 0xA9, CHR 0xE5, CHR 0x93, CHR 0x81, CHR 0xE4,
     CHR 0xB8, CHR 0x8D, CHR 0xE5, CHR 0xAD, CHR 0x98, CHR 0xE5, CHR 0x9C, CHR 0xA8]"

definition msg_item_deleted :: string where
  "msg_item_deleted = [CHR 0xE7, CHR 0x89, CHR 0xA9, CHR 0xE5, CHR 0x93, CHR 0x81, CHR 0xE5,
     CHR 0xB7, CHR 0xB2, CHR 0xE5, CHR 0x88, CHR 0xA0, CHR 0xE9, CHR 0x99, CHR 0xA4]"

definition msg_internal_error :: string where
  "msg_internal_error = [CHR 0xE6, CHR 0x9C, CHR 0x8D, CHR 0xE5, CHR 0x8A, CHR 0xA1, CHR 0xE5,
     CHR 0x99, CHR 0xA8, CHR 0xE5, CHR 0x86, CHR 0x85, CHR 0xE9, CHR 0x83, CHR 0xA8, CHR 0xE9,
     CHR 0x94, CHR 0x99, CHR 0xE8, CHR 0xAF, CHR 0xAF]"

definition msg_retry :: string where
  "msg_retry = [CHR 0xE8, CHR 0xAF, CHR 0xB7, CHR 0xE7, CHR 0xA8, CHR 0x8D, CHR 0xE5, CHR 0x90,
     CHR 0x8E, CHR 0xE9, CHR 0x87, CHR 0x8D, CHR 0xE8, CHR 0xAF, CHR 0x95]"

definition error_json :: "string \<Rightarrow> 'f json" where
  "error_json m = JObj [(''error'', JStr m)]"

section \<open>The user handlers\<close>

definition get_users :: "'f store \<Rightarrow> 'f outcome \<times> 'f store" where
  "get_users db =
     (Inr (JObj [(''users'', JArr (map user_json (dict_values (users_db db)))),
                 (''count'', JInt (int (dict_len (users_db db))))], 200), db)"

text \<open>A stored user is a dict of five keys, so \<^verbatim>\<open>if user:\<close> holds exactly when it was found.\<close>

definition get_user :: "string \<Rightarrow> 'f store \<Rightarrow> 'f outcome \<times> 'f store" where
  "get_user uid db =
     (case dict_get (users_db db) uid of
        Some user \<Rightarrow> (Inr (user_json user, 200), db)
      | None \<Rightarrow> (Inr (error_json msg_user_missing, 404), db))"

text \<open>
  \<open>data\<close> is what \<^verbatim>\<open>request.get_json()\<close> returned (\<open>JNull\<close> for \<^verbatim>\<open>None\<close>).
  \<^verbatim>\<open>datetime.now().isoformat()\<close> is evaluated twice, once for each time stamp:
  \<open>now1\<close> and \<open>now2\<close> are the two readings of the clock, in that order.
\<close>

definition create_user ::
  "'f builtins \<Rightarrow> 'f json \<Rightarrow> string \<Rightarrow> string \<Rightarrow> 'f store \<Rightarrow> 'f outcome \<times> 'f store" where
  "create_user B data now1 now2 db =
     (if truthy B data then
        (case py_get data ''name'' JNull of
           Inl e \<Rightarrow> (Inl e, db)
         | Inr v \<Rightarrow>
             if truthy B v then
               (let uid = py_str (dict_len (users_db db) + 1) in
                case py_getitem data ''name'' of
                  Inl e \<Rightarrow> (Inl e, db)
                | Inr nm \<Rightarrow>
                    (case py_get data ''email'' (JStr []) of
                       Inl e \<Rightarrow> (Inl e, db)
                     | Inr em \<Rightarrow>
                         (let user = \<lparr>user_id = uid, user_name = nm, user_email = em,
                                      user_created_at = now1, user_updated_at = now2\<rparr>
                          in (Inr (user_json user, 201),
                              db\<lparr>users_db := dict_setitem (users_db db) uid user\<rparr>))))
             else (Inr (error_json (msg_missing_field ''name''), 400), db))
      else (Inr (error_json (msg_missing_field ''name''), 400), db))"

text \<open>
  \<^verbatim>\<open>user = users_db[user_id]\<close> is the stored dict itself, so each assignment to it
  changes the store at once; an exception raised later leaves the earlier assignments
  in place.
\<close>

definition update_user ::
  "string \<Rightarrow> 'f json \<Rightarrow> string \<Rightarrow> 'f store \<Rightarrow> 'f outcome \<times> 'f store" where
  "update_user uid data now db =
     (case dict_get (users_db db) uid of
        None \<Rightarrow> (Inr (error_json msg_user_missing, 404), db)
      | Some user \<Rightarrow>
          (case py_in ''name'' data of
             Inl e \<Rightarrow> (Inl e, db)
           | Inr has_name \<Rightarrow>
               (case (if has_name
                      then (case py_getitem data ''name'' of
                              Inl e \<Rightarrow> Inl e | Inr v \<Rightarrow> Inr (user\<lparr>user_name := v\<rparr>))
                      else Inr user) of
                  Inl e \<Rightarrow> (Inl e, db)
                | Inr user1 \<Rightarrow>
                    (let db1 = db\<lparr>users_db := dict_setitem (users_db db) uid user1\<rparr> in
                     case py_in ''email'' data of
                       Inl e \<Rightarrow> (Inl e, db1)
                     | Inr has_email \<Rightarrow>
                         (case (if has_email
                                then (case py_getitem data ''email'' of
                                        Inl e \<Rightarrow> Inl e | Inr v \<Rightarrow> Inr (user1\<lparr>user_email := v\<rparr>))
                                else Inr user1) of
                            Inl e \<Rightarrow> (Inl e, db1)
                          | Inr user2 \<Rightarrow>
                              (let user3 = user2\<lparr>user_updated_at := now\<rparr> in
                               (Inr (user_json user3, 200),
                                db\<lparr>users_db := dict_setitem (users_db db) uid user3\<rparr>)))))))"

definition delete_user :: "string \<Rightarrow> 'f store \<Rightarrow> 'f outcome \<times> 'f store" where
  "delete_user uid db =
     (case dict_get (users_db db) uid of
        None \<Rightarrow> (Inr (error_json msg_user_missing, 404), db)
      | Some deleted_user \<Rightarrow>
          (Inr (JObj [(''message'', JStr msg_user_deleted), (''user'', user_json deleted_user)], 200),
           db\<lparr>users_db := dict_pop (users_db db) uid\<rparr>))"

section \<open>The item handlers\<close>

text \<open>
  The list comprehension of \<^verbatim>\<open>get_items\<close>: the items are visited in order, and
  \<^verbatim>\<open>item['name'].lower()\<close> raises at the first name that is not a str.
\<close>

fun filter_items :: "'f builtins \<Rightarrow> string \<Rightarrow> 'f item list \<Rightarrow> exn + 'f item list" where
  "filter_items B query [] = Inr []"
| "filter_items B query (it # its) =
     (case py_lower B (item_name it) of
        Inl e \<Rightarrow> Inl e
      | Inr nm \<Rightarrow>
          (case filter_items B query its of
             Inl e \<Rightarrow> Inl e
           | Inr rest \<Rightarrow> Inr (if str_contains (str_lower B query) nm then it # rest else rest)))"

text \<open>\<open>q\<close> is the query parameter of the request, \<open>None\<close> when the URL has none.\<close>

definition get_items :: "'f builtins \<Rightarrow> string option \<Rightarrow> 'f store \<Rightarrow> 'f outcome \<times> 'f store" where
  "get_items B q db =
     (let query = (case q of None \<Rightarrow> [] | Some s \<Rightarrow> s);
          items = dict_values (items_db db)
      in case (if query \<noteq> [] then filter_items B query items else Inr items) of
           Inl e \<Rightarrow> (Inl e, db)
         | Inr items' \<Rightarrow>
             (Inr (JObj [(''items'', JArr (map item_json items')),
                         (''count'', JInt (int (length items'))),
                         (''query'', JStr query)], 200), db))"

text \<open>
  The loop over \<^verbatim>\<open>required_fields\<close>: the first field that is not in \<open>data\<close>, if any.
\<close>

fun first_missing :: "string list \<Rightarrow> 'f json \<Rightarrow> exn + string option" where
  "first_missing [] data = Inr None"
| "first_missing (field # rest) data =
     (case py_in field data of
        Inl e \<Rightarrow> Inl e
      | Inr present \<Rightarrow> if present then first_missing rest data else Inr (Some field))"

definition required_fields :: "string list" where
  "required_fields = [''name'', ''price'']"

definition create_item ::
  "'f builtins \<Rightarrow> 'f json \<Rightarrow> string \<Rightarrow> 'f store \<Rightarrow> 'f outcome \<times> 'f store" where
  "create_item B data now db =
     (case first_missing required_fields data of
        Inl e \<Rightarrow> (Inl e, db)
      | Inr (Some field) \<Rightarrow> (Inr (error_json (msg_missing_field field), 400), db)
      | Inr None \<Rightarrow>
          (let iid = py_str (dict_len (items_db db) + 1) in
           case py_getitem data ''name'' of
             Inl e \<Rightarrow> (Inl e, db)
           | Inr nm \<Rightarrow>
               (case py_getitem data ''price'' of
                  Inl e \<Rightarrow> (Inl e, db)
                | Inr pv \<Rightarrow>
                    (case py_float B pv of
                       Inl e \<Rightarrow> (Inl e, db)
                     | Inr pr \<Rightarrow>
                         (case py_get data ''description'' (JStr []) of
                            Inl e \<Rightarrow> (Inl e, db)
                          | Inr de \<Rightarrow>
                              (let item = \<lparr>item_id = iid, item_name = nm, item_price = pr,
                                           item_description = de, item_created_at = now\<rparr>
                               in (Inr (item_json item, 201),
                                   db\<lparr>items_db := dict_setitem (items_db db) iid item\<rparr>)))))))"

definition delete_item :: "string \<Rightarrow> 'f store \<Rightarrow> 'f outcome \<times> 'f store" where
  "delete_item iid db =
     (case dict_get (items_db db) iid of
        None \<Rightarrow> (Inr (error_json msg_item_missing, 404), db)
      | Some deleted_item \<Rightarrow>
          (Inr (JObj [(''message'', JStr msg_item_deleted), (''item'', item_json deleted_item)], 200),
           db\<lparr>items_db := dict_pop (items_db db) iid\<rparr>))"

section \<open>What the client sees\<close>

text \<open>
  An exception that leaves a handler is answered with status 500; the handler registered
  for 500 (\<^verbatim>\<open>internal_error\<close>) gives the body.
\<close>

definition internal_error :: "'f response" where
  "internal_error =
     (JObj [(''error'', JStr msg_internal_error), (''message'', JStr msg_retry)], 500)"

definition client_response :: "'f outcome \<Rightarrow> 'f response" where
  "client_response r = (case r of Inl e \<Rightarrow> internal_error | Inr resp \<Rightarrow> resp)"

definition status :: "'f outcome \<Rightarrow> nat" where
  "status r = snd (client_response r)"

text \<open>The store as the module creates it.\<close>

definition empty_store :: "'f store" where
  "empty_store = \<lparr>users_db = [], items_db = []\<rparr>"

section \<open>An interpretation of the primitives, for the examples\<close>

text \<open>
  The theorems below hold for every interpretation of the primitives. The examples are
  evaluated in this one: a float is the rational number its literal denotes, \<^verbatim>\<open>float\<close>
  reads a str of digits with an optional fraction (\<^verbatim>\<open>"12"\<close>, \<^verbatim>\<open>"9.99"\<close>) and rejects any
  other, and \<^verbatim>\<open>lower\<close> maps the letters A to Z.
\<close>

definition is_digit :: "char \<Rightarrow> bool" where
  "is_digit c = (48 \<le> (of_char c :: nat) \<and> (of_char c :: nat) \<le> 57)"

definition read_decimal :: "string \<Rightarrow> rat option" where
  "read_decimal s =
     (let whole = takeWhile is_digit s; r = dropWhile is_digit s in
      if whole = [] then None
      else if r = [] then Some (of_nat (decimal_val whole))
      else if hd r = CHR ''.'' \<and> tl r \<noteq> [] \<and> list_all is_digit (tl r)
        then Some (of_nat (decimal_val (whole @ tl r)) / 10 ^ length (tl r))
      else None)"

definition ascii_lower :: "char \<Rightarrow> char" where
  "ascii_lower c =
     (if 65 \<le> (of_char c :: nat) \<and> (of_char c :: nat) \<le> 90 then char_of (of_char c + 32 :: nat)
      else c)"

definition example_builtins :: "rat builtins" where
  "example_builtins =
     \<lparr>float_of_int = (\<lambda>i. Some (of_int i)), float_of_str = read_decimal,
      float_nonzero = (\<lambda>x. x \<noteq> 0), str_lower = map ascii_lower\<rparr>"

section \<open>Sequences of GET requests\<close>

text \<open>The three GET routes on the stores, and the store after a list of such requests.\<close>

datatype get_request = Get_users | Get_user string | Get_items "string option"

fun handle_get :: "'f builtins \<Rightarrow> get_request \<Rightarrow> 'f store \<Rightarrow> 'f outcome \<times> 'f store" where
  "handle_get B Get_users db = get_users db"
| "handle_get B (Get_user uid) db = get_user uid db"
| "handle_get B (Get_items q) db = get_items B q db"

fun after_gets :: "'f builtins \<Rightarrow> get_request list \<Rightarrow> 'f store \<Rightarrow> 'f store" where
  "after_gets B [] db = db"
| "after_gets B (r # rs) db = after_gets B rs (snd (handle_get B r db))"

section \<open>Notions of the specification\<close>

text \<open>
  "The name contains \<open>q\<close> as a case-insensitive substring": after lowering both, the
  query is a contiguous part of the name.
\<close>

definition contains_ignoring_case :: "'f builtins \<Rightarrow> string \<Rightarrow> string \<Rightarrow> bool" where
  "contains_ignoring_case B s q = (\<exists>p t. str_lower B s = p @ str_lower B q @ t)"

definition name_matches :: "'f builtins \<Rightarrow> string \<Rightarrow> 'f item \<Rightarrow> bool" where
  "name_matches B q it = (\<exists>s. item_name it = JStr s \<and> contains_ignoring_case B s q)"

fun is_str :: "'f json \<Rightarrow> bool" where
  "is_str (JStr s) = True"
| "is_str JNull = False"
| "is_str (JBool b) = False"
| "is_str (JInt i) = False"
| "is_str (JFloat x) = False"
| "is_str (JArr xs) = False"
| "is_str (JObj kvs) = False"

definition names_are_str :: "'f store \<Rightarrow> bool" where
  "names_are_str db = list_all (\<lambda>it. is_str (item_name it)) (dict_values (items_db db))"


section \<open>Example requests and stores\<close>

text \<open>The store after \<^verbatim>\<open>POST /users {"name": "A"}\<close> on the empty store.\<close>

definition user_a :: "rat user" where
  "user_a = \<lparr>user_id = ''1'', user_name = JStr ''A'', user_email = JStr [],
             user_created_at = ''2024-05-01T10:00:00.000001'',
             user_updated_at = ''2024-05-01T10:00:00.000001''\<rparr>"

definition store_a :: "rat store" where
  "store_a = \<lparr>users_db = [(''1'', user_a)], items_db = []\<rparr>"

text \<open>
  The store after \<^verbatim>\<open>POST /items {"name": "Widget", "price": "9.99"}\<close> and
  \<^verbatim>\<open>POST /items {"name": "Gadget", "price": 5}\<close> on the empty store.
\<close>

definition widget :: "rat item" where
  "widget = \<lparr>item_id = ''1'', item_name = JStr ''Widget'', item_price = 999 / 100,
             item_description = JStr [], item_created_at = ''2024-05-01T10:00:00.000001''\<rparr>"

definition gadget :: "rat item" where
  "gadget = \<lparr>item_id = ''2'', item_name = JStr ''Gadget'', item_price = 5,
             item_description = JStr [], item_created_at = ''2024-05-01T10:00:02.000001''\<rparr>"

definition store_wg :: "rat store" where
  "store_wg = \<lparr>users_db = [], items_db = [(''1'', widget), (''2'', gadget)]\<rparr>"

text \<open>The store after \<^verbatim>\<open>POST /items {"name": 5, "price": 1}\<close> on the empty store.\<close>

definition item_five :: "rat item" where
  "item_five = \<lparr>item_id = ''1'', item_name = JInt 5, item_price = 1,
                item_description = JStr [], item_created_at = ''2024-05-01T10:00:00.000001''\<rparr>"

definition store_five :: "rat store" where
  "store_five = \<lparr>users_db = [], items_db = [(''1'', item_five)]\<rparr>"

section \<open>Facts about dictionaries, strings and decimal ids\<close>

lemma dict_get_setitem:
  "dict_get (dict_setitem d k v) k' = (if k' = k then Some v else dict_get d k')"
  by (induction d) (auto simp: dict_get_def)

lemma dict_get_pop:
  "dict_get (dict_pop d k) k' = (if k' = k then None else dict_get d k')"
  by (induction d) (auto simp: dict_get_def)

lemma dict_contains_get: "dict_contains d k = (dict_get d k \<noteq> None)"
  by (simp add: dict_contains_def dict_get_def)

lemma dict_keys_setitem:
  "map fst (dict_setitem d k v) = (if k \<in> set (map fst d) then map fst d else map fst d @ [k])"
  by (induction d) auto

lemma dict_contains_keys: "dict_contains d k = (k \<in> set (map fst d))"
  by (induction d) (auto simp: dict_contains_def)

lemma dict_len_setitem:
  "dict_len (dict_setitem d k v) = (if dict_contains d k then dict_len d else dict_len d + 1)"
proof -
  have "length (map fst (dict_setitem d k v)) =
          (if dict_contains d k then length d else length d + 1)"
    by (simp add: dict_keys_setitem dict_contains_keys)
  then show ?thesis by (simp add: dict_len_def)
qed

lemma dict_keys_pop: "map fst (dict_pop d k) = removeAll k (map fst d)"
  by (induction d) auto

lemma distinct_setitem:
  "distinct (map fst d) \<Longrightarrow> distinct (map fst (dict_setitem d k v))"
  by (simp add: dict_keys_setitem)

lemma distinct_pop:
  "distinct (map fst d) \<Longrightarrow> distinct (map fst (dict_pop d k))"
  by (simp add: dict_keys_pop distinct_removeAll)

lemma dict_len_pop:
  assumes "distinct (map fst d)" and "dict_contains d k"
  shows "Suc (dict_len (dict_pop d k)) = dict_len d"
proof -
  have "length (removeAll k (map fst d)) = length (map fst d) - 1"
    using assms by (simp add: dict_contains_keys distinct_remove1_removeAll[symmetric] length_remove1)
  moreover have "length (map fst d) > 0"
    using assms(2) by (cases d) (auto simp: dict_contains_def)
  ultimately have "Suc (length (map fst (dict_pop d k))) = length (map fst d)"
    by (simp add: dict_keys_pop)
  then show ?thesis by (simp add: dict_len_def)
qed

lemma starts_with_iff: "starts_with x s = (\<exists>t. s = x @ t)"
  by (induction x s rule: starts_with.induct) auto

lemma str_contains_iff: "str_contains x s = (\<exists>p t. s = p @ x @ t)"
proof (induction s)
  case Nil
  then show ?case by simp
next
  case (Cons c s)
  show ?case
  proof
    assume "str_contains x (c # s)"
    then consider "starts_with x (c # s)" | "str_contains x s"
      by (auto split: if_splits)
    then show "\<exists>p t. c # s = p @ x @ t"
    proof cases
      case 1
      then obtain t where "c # s = x @ t" by (auto simp: starts_with_iff)
      then have "c # s = [] @ x @ t" by simp
      then show ?thesis by blast
    next
      case 2
      then obtain p t where "s = p @ x @ t" using Cons.IH by auto
      then have "c # s = (c # p) @ x @ t" by simp
      then show ?thesis by blast
    qed
  next
    assume "\<exists>p t. c # s = p @ x @ t"
    then obtain p t where pt: "c # s = p @ x @ t" by blast
    show "str_contains x (c # s)"
    proof (cases p)
      case Nil
      with pt have "starts_with x (c # s)" by (auto simp: starts_with_iff)
      then show ?thesis by simp
    next
      case (Cons a p')
      with pt have "s = p' @ x @ t" by simp
      then have "str_contains x s" using Cons.IH by blast
      then show ?thesis by simp
    qed
  qed
qed

lemma digit_val_digit_char: "d < 10 \<Longrightarrow> digit_val (digit_char d) = d"
  by (simp add: digit_val_def digit_char_def)

lemma decimal_val_snoc: "decimal_val (s @ [c]) = 10 * decimal_val s + digit_val c"
  by (simp add: decimal_val_def)

lemma decimal_val_py_str: "decimal_val (py_str n) = n"
proof (induction n rule: py_str.induct)
  case (1 n)
  show ?case
  proof (cases "n < 10")
    case True
    then show ?thesis
      by (simp add: py_str.simps[of n] decimal_val_def digit_val_digit_char)
  next
    case False
    then have "decimal_val (py_str n) = 10 * decimal_val (py_str (n div 10)) + n mod 10"
      by (simp add: py_str.simps[of n] decimal_val_snoc digit_val_digit_char)
    with False "1.IH" show ?thesis by simp
  qed
qed


lemma status_simps:
  "status (Inl e) = 500" "status (Inr (body, st)) = st"
  by (simp_all add: status_def client_response_def internal_error_def)

lemma is_str_iff: "is_str v = (\<exists>s. v = JStr s)"
  by (cases v) auto

lemma filter_items_str:
  "list_all (\<lambda>it. is_str (item_name it)) its \<Longrightarrow>
   filter_items B q its = Inr (filter (name_matches B q) its)"
proof (induction its)
  case Nil
  then show ?case by simp
next
  case (Cons it its)
  from Cons.prems obtain s where s: "item_name it = JStr s"
    by (auto simp: is_str_iff)
  have "name_matches B q it = str_contains (str_lower B q) (str_lower B s)"
    by (simp add: name_matches_def contains_ignoring_case_def s str_contains_iff)
  with Cons s show ?case by simp
qed


lemma store_a_created:
  "create_user example_builtins (JObj [(''name'', JStr ''A'')]) ''2024-05-01T10:00:00.000001''
     ''2024-05-01T10:00:00.000001'' empty_store = (Inr (user_json user_a, 201), store_a)"
  by code_simp


lemma store_wg_created:
  "create_item example_builtins (JObj [(''name'', JStr ''Gadget''), (''price'', JInt 5)])
     ''2024-05-01T10:00:02.000001''
     (snd (create_item example_builtins (JObj [(''name'', JStr ''Widget''), (''price'', JStr ''9.99'')])
             ''2024-05-01T10:00:00.000001'' empty_store))
   = (Inr (item_json gadget, 201), store_wg)"
  by code_simp

lemma name_matches_str:
  "name_matches B q it =
     (case item_name it of JStr s \<Rightarrow> str_contains (str_lower B q) (str_lower B s) | _ \<Rightarrow> False)"
  by (cases "item_name it")
     (simp_all add: name_matches_def contains_ignoring_case_def str_contains_iff)

lemma get_items_names_str:
  assumes "list_all (\<lambda>it. is_str (item_name it)) (dict_values (items_db db))"
  shows "get_items B (Some query) db =
           (let found = (if query = [] then dict_values (items_db db)
                         else filter (name_matches B query) (dict_values (items_db db)))
            in (Inr (JObj [(''items'', JArr (map item_json found)),
                           (''count'', JInt (int (length found))),
                           (''query'', JStr query)], 200), db))"
  using filter_items_str [OF assms, of B query] by (simp add: get_items_def Let_def)

lemma get_items_no_query:
  "q = None \<or> q = Some [] \<Longrightarrow>
   get_items B q db =
     (Inr (JObj [(''items'', JArr (map item_json (dict_values (items_db db)))),
                 (''count'', JInt (int (length (dict_values (items_db db))))),
                 (''query'', JStr [])], 200), db)"
  by (auto simp: get_items_def Let_def)


section \<open>The claims\<close>

subsection \<open>Creating a user\<close>

text \<open>
  C1, as amended. For every request body that is a JSON object with a truthy \<open>name\<close>,
  \<open>create_user\<close> answers 201 and stores the user it returns: its id is the decimal string
  of the number of stored users plus one, its name is the body's, its email the body's or
  the empty string, \<open>created_at\<close> is the first reading of the clock and \<open>updated_at\<close> the
  second. The claim as written has the two time stamps equal; they are equal when the
  two readings are.
\<close>

theorem create_user_created:
  assumes "map_of kvs ''name'' = Some nm" and "truthy B nm"
  shows "create_user B (JObj kvs) now1 now2 db =
           (let user = \<lparr>user_id = py_str (dict_len (users_db db) + 1), user_name = nm,
                        user_email = (case map_of kvs ''email'' of None \<Rightarrow> JStr [] | Some e \<Rightarrow> e),
                        user_created_at = now1, user_updated_at = now2\<rparr>
            in (Inr (user_json user, 201),
                db\<lparr>users_db := dict_setitem (users_db db) (user_id user) user\<rparr>))
         \<and> status (fst (create_user B (JObj kvs) now1 now2 db)) = 201
         \<and> decimal_val (py_str (dict_len (users_db db) + 1)) = dict_len (users_db db) + 1"
proof -
  from assms(1) have "kvs \<noteq> []" by auto
  with assms show ?thesis
    by (simp add: create_user_def Let_def status_simps decimal_val_py_str)
qed

theorem create_user_created_witness:
  "map_of [(''name'', JStr ''Alice'')] ''name'' = Some (JStr ''Alice'' :: rat json)
   \<and> truthy example_builtins (JStr ''Alice'')
   \<and> create_user example_builtins (JObj [(''name'', JStr ''Alice'')])
        ''2024-05-01T10:00:00.000001'' ''2024-05-01T10:00:00.000001'' empty_store =
       (Inr (JObj [(''id'', JStr ''1''), (''name'', JStr ''Alice''), (''email'', JStr []),
                   (''created_at'', JStr ''2024-05-01T10:00:00.000001''),
                   (''updated_at'', JStr ''2024-05-01T10:00:00.000001'')], 201),
        \<lparr>users_db = [(''1'', \<lparr>user_id = ''1'', user_name = JStr ''Alice'', user_email = JStr [],
                                 user_created_at = ''2024-05-01T10:00:00.000001'',
                                 user_updated_at = ''2024-05-01T10:00:00.000001''\<rparr>)],
         items_db = []\<rparr>)"
proof -
  have h1: "map_of [(''name'', JStr ''Alice'')] ''name'' = Some (JStr ''Alice'' :: rat json)"
    by simp
  have h2: "truthy example_builtins (JStr ''Alice'')"
    by simp
  have one: "py_str (Suc 0) = ''1''"
    by code_simp
  from create_user_created [OF h1 h2, of "''2024-05-01T10:00:00.000001''"
      "''2024-05-01T10:00:00.000001''" empty_store]
  show ?thesis
    by (simp add: Let_def empty_store_def dict_len_def user_json_def one)
qed

text \<open>
  Counterexample to the claim as written: the handler reads the clock once for each time stamp, and a user
  created while the clock advances between the two readings has \<open>created_at\<close> different
  from \<open>updated_at\<close>.
\<close>

theorem create_user_stamps_differ:
  "create_user example_builtins (JObj [(''name'', JStr ''Alice'')])
     ''2024-05-01T10:00:00.000001'' ''2024-05-01T10:00:00.000002'' empty_store =
     (Inr (JObj [(''id'', JStr ''1''), (''name'', JStr ''Alice''), (''email'', JStr []),
                 (''created_at'', JStr ''2024-05-01T10:00:00.000001''),
                 (''updated_at'', JStr ''2024-05-01T10:00:00.000002'')], 201),
      \<lparr>users_db = [(''1'', \<lparr>user_id = ''1'', user_name = JStr ''Alice'', user_email = JStr [],
                               user_created_at = ''2024-05-01T10:00:00.000001'',
                               user_updated_at = ''2024-05-01T10:00:00.000002''\<rparr>)],
       items_db = []\<rparr>)
   \<and> ''2024-05-01T10:00:00.000001'' \<noteq> ''2024-05-01T10:00:00.000002''"
  by code_simp

subsection \<open>Updating a user\<close>

text \<open>
  C2. For every id and every request body that is a JSON object, \<open>update_user\<close> answers
  404 and changes nothing when the id is not stored. Otherwise it answers 200 with the
  updated user, in which \<open>name\<close> and \<open>email\<close> are the body's where the body has the key
  and the stored ones where it has not, \<open>id\<close> and \<open>created_at\<close> are the stored ones and
  \<open>updated_at\<close> is the reading of the clock; the store holds the updated user under the
  id, and nothing else in it has changed.
\<close>

theorem update_user_partial:
  "(dict_get (users_db db) uid = None \<longrightarrow>
      update_user uid (JObj kvs) now db = (Inr (error_json msg_user_missing, 404), db))
   \<and> (dict_get (users_db db) uid = Some user \<longrightarrow>
      (let user' = user\<lparr>user_name := (case map_of kvs ''name'' of None \<Rightarrow> user_name user | Some v \<Rightarrow> v),
                        user_email := (case map_of kvs ''email'' of None \<Rightarrow> user_email user | Some v \<Rightarrow> v),
                        user_updated_at := now\<rparr>;
           db' = snd (update_user uid (JObj kvs) now db)
       in fst (update_user uid (JObj kvs) now db) = Inr (user_json user', 200)
          \<and> user_id user' = user_id user
          \<and> user_created_at user' = user_created_at user
          \<and> dict_get (users_db db') uid = Some user'
          \<and> (\<forall>k. k \<noteq> uid \<longrightarrow> dict_get (users_db db') k = dict_get (users_db db) k)
          \<and> map fst (users_db db') = map fst (users_db db)
          \<and> items_db db' = items_db db))"
proof (intro conjI impI)
  assume "dict_get (users_db db) uid = None"
  then show "update_user uid (JObj kvs) now db = (Inr (error_json msg_user_missing, 404), db)"
    by (simp add: update_user_def)
next
  assume u: "dict_get (users_db db) uid = Some user"
  then have "uid \<in> set (map fst (users_db db))"
    using dict_contains_keys[of "users_db db" uid] by (simp add: dict_contains_get)
  with u show "let user' = user\<lparr>user_name := (case map_of kvs ''name'' of None \<Rightarrow> user_name user | Some v \<Rightarrow> v),
                        user_email := (case map_of kvs ''email'' of None \<Rightarrow> user_email user | Some v \<Rightarrow> v),
                        user_updated_at := now\<rparr>;
           db' = snd (update_user uid (JObj kvs) now db)
       in fst (update_user uid (JObj kvs) now db) = Inr (user_json user', 200)
          \<and> user_id user' = user_id user
          \<and> user_created_at user' = user_created_at user
          \<and> dict_get (users_db db') uid = Some user'
          \<and> (\<forall>k. k \<noteq> uid \<longrightarrow> dict_get (users_db db') k = dict_get (users_db db) k)
          \<and> map fst (users_db db') = map fst (users_db db)
          \<and> items_db db' = items_db db"
    by (cases "map_of kvs ''name''"; cases "map_of kvs ''email''")
       (simp_all add: update_user_def Let_def dict_get_setitem dict_keys_setitem)
qed

theorem update_user_partial_witness:
  "dict_get (users_db store_a) ''1'' = Some user_a
   \<and> update_user ''1'' (JObj [(''email'', JStr ''a@x.com'')]) ''2024-05-01T10:00:07.000003'' store_a
     = (Inr (JObj [(''id'', JStr ''1''), (''name'', JStr ''A''), (''email'', JStr ''a@x.com''),
                   (''created_at'', JStr ''2024-05-01T10:00:00.000001''),
                   (''updated_at'', JStr ''2024-05-01T10:00:07.000003'')], 200),
        \<lparr>users_db = [(''1'', user_a\<lparr>user_email := JStr ''a@x.com'',
                                   user_updated_at := ''2024-05-01T10:00:07.000003''\<rparr>)],
         items_db = []\<rparr>)
   \<and> dict_get (users_db store_a) ''7'' = None
   \<and> update_user ''7'' (JObj [(''email'', JStr ''a@x.com'')]) ''2024-05-01T10:00:07.000003'' store_a
     = (Inr (error_json msg_user_missing, 404), store_a)"
proof -
  have h: "dict_get (users_db store_a) ''1'' = Some user_a"
    by (simp add: dict_get_def store_a_def)
  have n: "dict_get (users_db store_a) ''7'' = None"
    by (simp add: dict_get_def store_a_def)
  have s: "snd (update_user ''1'' (JObj [(''email'', JStr ''a@x.com'')])
                 ''2024-05-01T10:00:07.000003'' store_a)
      = \<lparr>users_db = [(''1'', user_a\<lparr>user_email := JStr ''a@x.com'',
                                   user_updated_at := ''2024-05-01T10:00:07.000003''\<rparr>)],
         items_db = []\<rparr>"
    by (simp add: update_user_def dict_get_def store_a_def Let_def)
  have u: "user_json (user_a\<lparr>user_email := JStr ''a@x.com'',
                             user_updated_at := ''2024-05-01T10:00:07.000003''\<rparr>)
      = JObj [(''id'', JStr ''1''), (''name'', JStr ''A''), (''email'', JStr ''a@x.com''),
              (''created_at'', JStr ''2024-05-01T10:00:00.000001''),
              (''updated_at'', JStr ''2024-05-01T10:00:07.000003'')]"
    by (simp add: user_json_def user_a_def)
  from update_user_partial [of store_a "''1''" "[(''email'', JStr ''a@x.com'')]"
      "''2024-05-01T10:00:07.000003''" user_a]
    update_user_partial [of store_a "''7''" "[(''email'', JStr ''a@x.com'')]"
      "''2024-05-01T10:00:07.000003''" user_a]
  show ?thesis
    using h n s u by (simp add: Let_def prod_eq_iff)
qed

subsection \<open>Ids after a deletion\<close>

text \<open>
  C3. Create two users, delete the user with id "1", create a third user: the third
  user is given the id "2", which the second user already has in the store, because the
  id is the decimal string of the current count plus one. The new user then replaces the
  second one under that id. The same happens with items.
\<close>

theorem id_reused_after_delete:
  "(let t = ''2024-05-01T10:00:00.000001'';
        s1 = snd (create_user example_builtins (JObj [(''name'', JStr ''A'')]) t t empty_store);
        s2 = snd (create_user example_builtins (JObj [(''name'', JStr ''B'')]) t t s1);
        s3 = snd (delete_user ''1'' s2);
        r = create_user example_builtins (JObj [(''name'', JStr ''C'')]) t t s3
    in map fst (users_db s2) = [''1'', ''2'']
       \<and> map fst (users_db s3) = [''2'']
       \<and> dict_contains (users_db s3) ''2''
       \<and> dict_get (users_db s3) ''2'' =
            Some \<lparr>user_id = ''2'', user_name = JStr ''B'', user_email = JStr [],
                  user_created_at = t, user_updated_at = t\<rparr>
       \<and> fst r = Inr (JObj [(''id'', JStr ''2''), (''name'', JStr ''C''), (''email'', JStr []),
                            (''created_at'', JStr t), (''updated_at'', JStr t)], 201)
       \<and> users_db (snd r) =
            [(''2'', \<lparr>user_id = ''2'', user_name = JStr ''C'', user_email = JStr [],
                      user_created_at = t, user_updated_at = t\<rparr>)])
   \<and> (let t = ''2024-05-01T10:00:00.000001'';
        s1 = snd (create_item example_builtins
                    (JObj [(''name'', JStr ''A''), (''price'', JInt 1)]) t empty_store);
        s2 = snd (create_item example_builtins
                    (JObj [(''name'', JStr ''B''), (''price'', JInt 2)]) t s1);
        s3 = snd (delete_item ''1'' s2);
        r = create_item example_builtins (JObj [(''name'', JStr ''C''), (''price'', JInt 3)]) t s3
    in map fst (items_db s2) = [''1'', ''2'']
       \<and> map fst (items_db s3) = [''2'']
       \<and> dict_contains (items_db s3) ''2''
       \<and> fst r = Inr (JObj [(''id'', JStr ''2''), (''name'', JStr ''C''), (''price'', JFloat 3),
                            (''description'', JStr []), (''created_at'', JStr t)], 201)
       \<and> users_db (snd r) = []
       \<and> items_db (snd r) =
            [(''2'', \<lparr>item_id = ''2'', item_name = JStr ''C'', item_price = 3,
                      item_description = JStr [], item_created_at = t\<rparr>)])"
  by code_simp

subsection \<open>Required fields of an item\<close>



text \<open>The other cases on concrete bodies.\<close>

lemma create_item_examples:
  "create_item example_builtins (JObj [(''name'', JStr ''Widget'')]) ''2024-05-01T10:00:00.000001'' store_a
     = (Inr (JObj [(''error'', JStr (msg_missing_field ''price''))], 400), store_a)"
  "create_item example_builtins (JObj []) ''2024-05-01T10:00:00.000001'' store_a
     = (Inr (JObj [(''error'', JStr (msg_missing_field ''name''))], 400), store_a)"
  "status (fst (create_item example_builtins (JObj [(''name'', JStr []), (''price'', JInt 5)])
                  ''2024-05-01T10:00:00.000001'' store_a)) = 201"
  "status (fst (create_user example_builtins (JObj [(''name'', JStr []), (''price'', JInt 5)])
                  ''2024-05-01T10:00:00.000001'' ''2024-05-01T10:00:00.000001'' store_a)) = 400"
  by code_simp+

subsection \<open>A user without a name\<close>



lemma create_user_missing_name_examples:
  "create_user example_builtins JNull ''2024-05-01T10:00:00.000001'' ''2024-05-01T10:00:00.000002'' store_a
     = (Inr (JObj [(''error'', JStr (msg_missing_field ''name''))], 400), store_a)"
  "create_user example_builtins (JObj []) ''2024-05-01T10:00:00.000001'' ''2024-05-01T10:00:00.000002'' store_a
     = (Inr (JObj [(''error'', JStr (msg_missing_field ''name''))], 400), store_a)"
  "create_user example_builtins (JObj [(''email'', JStr ''a@x.com'')]) ''2024-05-01T10:00:00.000001''
      ''2024-05-01T10:00:00.000002'' store_a
     = (Inr (JObj [(''error'', JStr (msg_missing_field ''name''))], 400), store_a)"
  by code_simp+

subsection \<open>Listing items\<close>

text \<open>
  C6, as amended. For every store in which the name of every stored item is a string,
  and every query string \<open>q\<close>: with \<open>q\<close> not empty, the item list answers 200 with
  exactly the stored items whose name contains \<open>q\<close> as a case-insensitive substring, in
  the order of the store, with \<open>count\<close> the length of that list and \<open>query\<close> equal to \<open>q\<close>.
  With \<open>q\<close> absent or empty it answers, in every store, with all the items, their number
  and the empty string as \<open>query\<close>.
\<close>

theorem get_items_filtered:
  assumes "q = None \<or> q = Some [] \<or> names_are_str db"
  shows "get_items B q db =
           (let query = (case q of None \<Rightarrow> [] | Some s \<Rightarrow> s);
                found = (if query = [] then dict_values (items_db db)
                         else filter (name_matches B query) (dict_values (items_db db)))
            in (Inr (JObj [(''items'', JArr (map item_json found)),
                           (''count'', JInt (int (length found))),
                           (''query'', JStr query)], 200), db))"
proof (cases "q = None \<or> q = Some []")
  case True
  then show ?thesis
    using get_items_no_query [of q B db] by (auto simp: Let_def)
next
  case False
  then obtain s where s: "q = Some s"
    by (cases q) auto
  from False assms have "names_are_str db"
    by blast
  then show ?thesis
    using get_items_names_str [of db B s] by (simp add: s names_are_str_def)
qed

theorem get_items_filtered_witness:
  "(Some ''wid'' = None \<or> Some ''wid'' = Some [] \<or> names_are_str store_wg)
   \<and> get_items example_builtins (Some ''wid'') store_wg =
       (Inr (JObj [(''items'', JArr [item_json widget]), (''count'', JInt 1),
                   (''query'', JStr ''wid'')], 200), store_wg)"
proof -
  have h: "Some ''wid'' = None \<or> Some ''wid'' = Some [] \<or> names_are_str store_wg"
    by (simp add: names_are_str_def store_wg_def dict_values_def widget_def gadget_def)
  have w: "name_matches example_builtins ''wid'' widget = True"
    unfolding name_matches_str by code_simp
  have g: "name_matches example_builtins ''wid'' gadget = False"
    unfolding name_matches_str by code_simp
  from get_items_filtered [OF h, of example_builtins]
  show ?thesis
    using h by (simp add: Let_def store_wg_def dict_values_def w g)
qed

text \<open>
  Counterexample to the claim as written: an item is created with the number 5 as its
  name, which \<open>create_item\<close> accepts; the item list with the query \<^verbatim>\<open>a\<close> then raises
  AttributeError at \<^verbatim>\<open>item['name'].lower()\<close> and the client gets status 500 instead of a
  list.
\<close>

theorem get_items_name_not_str:
  "create_item example_builtins (JObj [(''name'', JInt 5), (''price'', JInt 1)])
     ''2024-05-01T10:00:00.000001'' empty_store = (Inr (item_json item_five, 201), store_five)
   \<and> get_items example_builtins (Some ''a'') store_five = (Inl AttributeError, store_five)
   \<and> status (fst (get_items example_builtins (Some ''a'') store_five)) = 500"
  by code_simp

subsection \<open>Deleting a user\<close>

text \<open>
  C7. For every id, \<open>delete_user\<close> answers 404 and changes nothing when the id is not
  stored. Otherwise it answers 200 with a message and the stored user, and removes the
  entry: the id is no longer stored, every other id is stored as before, the items are
  untouched, and the store has one entry less. A second delete of the same id then
  answers 404.
\<close>

theorem delete_user_removes:
  "(dict_get (users_db db) uid = None \<longrightarrow>
      delete_user uid db = (Inr (JObj [(''error'', JStr msg_user_missing)], 404), db))
   \<and> (dict_get (users_db db) uid = Some user \<longrightarrow>
      (let db' = snd (delete_user uid db)
       in fst (delete_user uid db)
            = Inr (JObj [(''message'', JStr msg_user_deleted), (''user'', user_json user)], 200)
          \<and> dict_get (users_db db') uid = None
          \<and> (\<forall>k. k \<noteq> uid \<longrightarrow> dict_get (users_db db') k = dict_get (users_db db) k)
          \<and> items_db db' = items_db db
          \<and> (distinct (map fst (users_db db)) \<longrightarrow>
               Suc (dict_len (users_db db')) = dict_len (users_db db))
          \<and> delete_user uid db' = (Inr (JObj [(''error'', JStr msg_user_missing)], 404), db')))"
proof (intro conjI impI)
  assume "dict_get (users_db db) uid = None"
  then show "delete_user uid db = (Inr (JObj [(''error'', JStr msg_user_missing)], 404), db)"
    by (simp add: delete_user_def error_json_def)
next
  assume u: "dict_get (users_db db) uid = Some user"
  have s: "snd (delete_user uid db) = db\<lparr>users_db := dict_pop (users_db db) uid\<rparr>"
    using u by (simp add: delete_user_def)
  have len: "distinct (map fst (users_db db)) \<longrightarrow>
      Suc (dict_len (dict_pop (users_db db) uid)) = dict_len (users_db db)"
    using u dict_len_pop [of "users_db db" uid] by (simp add: dict_contains_get)
  show "let db' = snd (delete_user uid db)
       in fst (delete_user uid db)
            = Inr (JObj [(''message'', JStr msg_user_deleted), (''user'', user_json user)], 200)
          \<and> dict_get (users_db db') uid = None
          \<and> (\<forall>k. k \<noteq> uid \<longrightarrow> dict_get (users_db db') k = dict_get (users_db db) k)
          \<and> items_db db' = items_db db
          \<and> (distinct (map fst (users_db db)) \<longrightarrow>
               Suc (dict_len (users_db db')) = dict_len (users_db db))
          \<and> delete_user uid db' = (Inr (JObj [(''error'', JStr msg_user_missing)], 404), db')"
    unfolding Let_def s using u len
    by (simp add: delete_user_def dict_get_pop error_json_def)
qed

theorem delete_user_removes_witness:
  "dict_get (users_db store_a) ''1'' = Some user_a
   \<and> delete_user ''1'' store_a
       = (Inr (JObj [(''message'', JStr msg_user_deleted), (''user'', user_json user_a)], 200),
          empty_store)
   \<and> delete_user ''1'' empty_store
       = (Inr (JObj [(''error'', JStr msg_user_missing)], 404), (empty_store :: rat store))"
proof -
  have h: "dict_get (users_db store_a) ''1'' = Some user_a"
    by (simp add: dict_get_def store_a_def)
  have s: "snd (delete_user ''1'' store_a) = empty_store"
    by (simp add: delete_user_def dict_get_def store_a_def empty_store_def)
  from delete_user_removes [of store_a "''1''" user_a]
  show ?thesis
    using h s by (simp add: Let_def prod_eq_iff)
qed

subsection \<open>Creating an item\<close>



text \<open>A price that \<^verbatim>\<open>float\<close> rejects: the client gets 500 and nothing is stored.\<close>

lemma create_item_bad_price:
  "create_item example_builtins (JObj [(''name'', JStr ''Widget''), (''price'', JStr ''cheap'')])
     ''2024-05-01T10:00:00.000001'' store_a = (Inl ValueError, store_a)"
  "create_item example_builtins (JObj [(''name'', JStr ''Widget''), (''price'', JNull)])
     ''2024-05-01T10:00:00.000001'' store_a = (Inl TypeError, store_a)"
  by code_simp+

subsection \<open>GET requests\<close>

text \<open>
  C9. In every store, the user list, the lookup of a user and the item list with any
  query (also one on which the handler raises) leave both stores as they are, and so
  does any sequence of such requests.
\<close>

theorem get_requests_keep_store:
  "snd (get_users db) = db
   \<and> snd (get_user uid db) = db
   \<and> snd (get_items B q db) = db
   \<and> after_gets B reqs db = db"
proof -
  have one: "snd (handle_get B r s) = s" for r s
    by (cases r) (auto simp: get_users_def get_user_def get_items_def Let_def
                       split: option.splits sum.splits)
  have "after_gets B reqs db = db"
    by (induction reqs) (simp_all add: one)
  moreover have "snd (get_users db) = db" "snd (get_user uid db) = db"
      "snd (get_items B q db) = db"
    using one [of Get_users db] one [of "Get_user uid" db] one [of "Get_items q" db]
    by simp_all
  ultimately show ?thesis
    by simp
qed

subsection \<open>A request without a JSON body\<close>

text \<open>
  C10. When \<^verbatim>\<open>request.get_json()\<close> gives \<^verbatim>\<open>None\<close>: \<open>create_user\<close> answers 400;
  \<open>create_item\<close> raises TypeError at \<^verbatim>\<open>field not in data\<close> and the client gets 500;
  \<open>update_user\<close> on a stored id raises TypeError at \<^verbatim>\<open>'name' in data\<close> and the client
  gets 500 (on an id that is not stored it answers 404 before it looks at the body).
  None of the three changes the store.
\<close>

theorem none_body_disagreement:
  "create_user B JNull now1 now2 db
     = (Inr (JObj [(''error'', JStr (msg_missing_field ''name''))], 400), db)
   \<and> create_item B JNull now db = (Inl TypeError, db)
   \<and> status (fst (create_item B JNull now db)) = 500
   \<and> (dict_get (users_db db) uid = Some user \<longrightarrow>
        update_user uid JNull now db = (Inl TypeError, db)
        \<and> status (fst (update_user uid JNull now db)) = 500)
   \<and> (dict_get (users_db db) uid = None \<longrightarrow>
        status (fst (update_user uid JNull now db)) = 404)"
  by (simp add: create_user_def create_item_def update_user_def required_fields_def
        error_json_def status_simps)

theorem none_body_disagreement_witness:
  "dict_get (users_db store_a) ''1'' = Some user_a
   \<and> update_user ''1'' JNull ''2024-05-01T10:00:07.000003'' store_a = (Inl TypeError, store_a)
   \<and> status (fst (update_user ''1'' JNull ''2024-05-01T10:00:07.000003'' store_a)) = 500
   \<and> create_item example_builtins JNull ''2024-05-01T10:00:07.000003'' store_a
       = (Inl TypeError, store_a)
   \<and> status (fst (create_user example_builtins JNull ''2024-05-01T10:00:07.000003''
                    ''2024-05-01T10:00:07.000004'' store_a)) = 400"
proof -
  have h: "dict_get (users_db store_a) ''1'' = Some user_a"
    by (simp add: dict_get_def store_a_def)
  from none_body_disagreement [of example_builtins "''2024-05-01T10:00:07.000003''"
      "''2024-05-01T10:00:07.000004''" store_a "''2024-05-01T10:00:07.000003''" "''1''" user_a]
  show ?thesis
    using h by (simp add: status_simps)
qed

end
